theory Spec2Isabelle
  imports Main
begin

section \<open>The persisted records (db.ts)\<close>

text \<open>
  The two tables of the store and their row types. The columns \<open>created_at\<close> and
  \<open>updated_at\<close> are filled by the database itself and no operation below reads them;
  they are left out. The field \<open>id\<close> of an execution is called \<open>exec_id\<close> here and the
  fields of a session carry the prefix \<open>cs_\<close>.
\<close>

datatype SessionStatus = ACTIVE | ARCHIVED

datatype ExecutionStatus = QUEUED | RUNNING | COMPLETED | FAILED | TIMEOUT

record CodeSession =
  cs_id :: string
  cs_language :: string
  cs_source_code :: string
  cs_status :: SessionStatus

record Execution =
  exec_id :: string
  session_id :: string
  status :: ExecutionStatus
  stdout :: "string option"
  stderr :: "string option"
  execution_time_ms :: "int option"

section \<open>Jobs and the queue (queue/producer.ts, queue/worker.ts)\<close>

record ExecutionJob =
  executionId :: string
  language :: string
  code :: string

record Backoff =
  backoff_type :: string
  delay :: nat

record JobsOptions =
  attempts :: nat
  backoff :: Backoff
  removeOnComplete :: bool
  removeOnFail :: bool

record QueuedJob =
  job_name :: string
  job_data :: ExecutionJob
  job_opts :: JobsOptions

section \<open>Effects\<close>

text \<open>
  Every effect of the worker that can be observed from outside is recorded, in order,
  as an event: the console lines, each \<open>UPDATE\<close> statement that the store executed,
  each file written or removed, each subprocess started or killed.
\<close>

datatype event =
    LogProcessing string string
  | LogFinished string int
  | LogFailed string string
  | LogCleanupFailed string
  | SqlUpdate string ExecutionStatus "string option" "string option" "int option"
  | WriteFile string string
  | Spawn "string list"
  | Kill "string list"
  | Unlink string

text \<open>
  The state the operations act on: both tables keyed by primary key, the files of the
  temporary directory keyed by path, the jobs of the queue \<open>code-execution\<close> in the
  order they were added, and the events so far.
\<close>

record sys =
  sessions :: "string \<rightharpoonup> CodeSession"
  executions :: "string \<rightharpoonup> Execution"
  files :: "string \<rightharpoonup> string"
  queue :: "QueuedJob list"
  trace :: "event list"

text \<open>
  An awaited call returns a value, throws, or never settles; of a thrown error the
  code reads only \<open>error.message\<close>, so an exception is its message. \<open>Pending\<close> is
  the await that never settles: the function suspended there never resumes, so nothing
  after that await runs, its \<open>catch\<close> and \<open>finally\<close> blocks included, and the state
  paired with \<open>Pending\<close> is the state at that await.
\<close>

datatype 'a result = Throw string | Return 'a | Pending

definition emit :: "event \<Rightarrow> sys \<Rightarrow> sys" where
  "emit ev s = s\<lparr>trace := trace s @ [ev]\<rparr>"

section \<open>The store (db.ts)\<close>

text \<open>
  Each \<open>pool.query\<close> can fail for reasons outside the program (connection lost, pool
  closed). A fault \<open>Some m\<close> makes the query throw \<open>m\<close> without effect; \<open>None\<close> lets it
  run. \<open>createExecution\<close> and \<open>updateExecutionStatus\<close> issue two queries each, the
  statement and the read-back through \<open>getExecution\<close>, so they take one fault for each.
\<close>

type_synonym db_faults = "string option \<times> string option"

definition getExecution :: "string option \<Rightarrow> string \<Rightarrow> sys \<Rightarrow> Execution option result" where
  "getExecution fault i s =
     (case fault of
        Some m \<Rightarrow> Throw m
      | None \<Rightarrow> Return (executions s i))"

text \<open>
  \<open>INSERT INTO executions (id, session_id, status) VALUES (?, ?, 'QUEUED')\<close>: the
  primary key rejects a second row with the same id, the foreign key rejects a session
  id that is not in \<open>sessions\<close> (the two messages stand for the errors of the
  database); the three output columns take their default, NULL.
\<close>

definition createExecution :: "db_faults \<Rightarrow> string \<Rightarrow> string \<Rightarrow> sys \<Rightarrow> Execution option result \<times> sys" where
  "createExecution faults i sid s =
     (case fst faults of
        Some m \<Rightarrow> (Throw m, s)
      | None \<Rightarrow>
          (case executions s i of
             Some _ \<Rightarrow> (Throw ''ER_DUP_ENTRY'', s)
           | None \<Rightarrow>
               (case sessions s sid of
                  None \<Rightarrow> (Throw ''ER_NO_REFERENCED_ROW_2'', s)
                | Some _ \<Rightarrow>
                    (let s' = s\<lparr>executions := (executions s)(i \<mapsto>
                           \<lparr>exec_id = i, session_id = sid, status = QUEUED,
                            stdout = None, stderr = None, execution_time_ms = None\<rparr>)\<rparr>
                     in (getExecution (snd faults) i s', s')))))"

text \<open>
  \<open>UPDATE executions SET status = ?, stdout = ?, stderr = ?, execution_time_ms = ?
  WHERE id = ?\<close>: no condition on the row's current status; a missing row is no error.
\<close>

definition sql_update_execution ::
  "string \<Rightarrow> ExecutionStatus \<Rightarrow> string option \<Rightarrow> string option \<Rightarrow> int option \<Rightarrow> sys \<Rightarrow> sys" where
  "sql_update_execution i st out err t s =
     emit (SqlUpdate i st out err t)
       (case executions s i of
          None \<Rightarrow> s
        | Some ex \<Rightarrow>
            s\<lparr>executions := (executions s)(i \<mapsto>
                 ex\<lparr>status := st, stdout := out, stderr := err, execution_time_ms := t\<rparr>)\<rparr>)"

definition updateExecutionStatus ::
  "db_faults \<Rightarrow> string \<Rightarrow> ExecutionStatus \<Rightarrow> string option \<Rightarrow> string option \<Rightarrow> int option
     \<Rightarrow> sys \<Rightarrow> Execution option result \<times> sys" where
  "updateExecutionStatus faults i st out err t s =
     (case fst faults of
        Some m \<Rightarrow> (Throw m, s)
      | None \<Rightarrow>
          (let s' = sql_update_execution i st out err t s
           in (getExecution (snd faults) i s', s')))"

section \<open>The producer (queue/producer.ts)\<close>

text \<open>
  \<open>executionQueue.add\<close> appends the job to the queue, or throws when the broker cannot
  be reached (the fault).
\<close>

definition addExecutionJob :: "string option \<Rightarrow> string \<Rightarrow> string \<Rightarrow> string \<Rightarrow> sys \<Rightarrow> unit result \<times> sys" where
  "addExecutionJob fault i lang c s =
     (case fault of
        Some m \<Rightarrow> (Throw m, s)
      | None \<Rightarrow>
          (Return (),
           s\<lparr>queue := queue s @
             [\<lparr>job_name = ''execute'',
               job_data = \<lparr>executionId = i, language = lang, code = c\<rparr>,
               job_opts = \<lparr>attempts = 2,
                            backoff = \<lparr>backoff_type = ''exponential'', delay = 1000\<rparr>,
                            removeOnComplete = True,
                            removeOnFail = False\<rparr>\<rparr>]\<rparr>))"

section \<open>The worker (queue/worker.ts)\<close>

text \<open>
  What the world outside the handler does during one run of it: the clock at the three
  places it is read, the faults of the three store calls, what \<open>writeFile\<close>,
  \<open>Bun.spawn\<close> and \<open>unlink\<close> do, and the subprocess: when it exits (milliseconds after
  the spawn, with its exit code; \<open>None\<close> when it never does by itself) and what
  reading each of its two streams to the end gives. Such a read ends at the end of
  the pipe, which comes when every process holding its write end has closed it: when
  a descendant of the subprocess keeps the pipe open after the subprocess has exited,
  the read stays \<open>Pending\<close>, and no timer covers lines 64 and 65 (\<open>proc.kill\<close> reaches
  the subprocess only). The calls of the store and of the file system are taken to
  settle, with a value or an exception. The files are changed by \<open>writeFile\<close> and
  \<open>unlink\<close> only: what the subprocess itself does to the disk is not part of the
  state.
\<close>

datatype write_outcome = WriteOk | WriteThrows string bool

record worker_env =
  cwd :: string
  now_start :: int
  now_done :: int
  now_caught :: int
  running_db :: db_faults
  write_res :: write_outcome
  spawn_fault :: "string option"
  exit_at :: "(nat \<times> int) option"
  stdout_text :: "string result"
  stderr_text :: "string result"
  completed_db :: db_faults
  caught_db :: db_faults
  unlink_fault :: "string option"

definition EXECUTION_TIMEOUT_MS :: nat where
  "EXECUTION_TIMEOUT_MS = 5000"

text \<open>
  \<open>path.join\<close> on segments that hold no separator and no dots of their own (the ids
  are UUIDs made by the API) puts a slash between them.
\<close>

definition join :: "string \<Rightarrow> string \<Rightarrow> string" where
  "join a b = a @ ''/'' @ b"

definition TEMP_DIR :: "string \<Rightarrow> string" where
  "TEMP_DIR dir = join dir ''temp_execution''"

definition fileName :: "ExecutionJob \<Rightarrow> string" where
  "fileName job = executionId job @ ''.'' @ (if language job = ''python'' then ''py'' else ''js'')"

definition filePath :: "string \<Rightarrow> ExecutionJob \<Rightarrow> string" where
  "filePath dir job = join (TEMP_DIR dir) (fileName job)"

text \<open>
  \<open>writeFile\<close>: on success the file holds the code. When it throws, the flag of the
  outcome says whether a (partial, here empty) file was left behind.
\<close>

definition writeFile :: "write_outcome \<Rightarrow> string \<Rightarrow> string \<Rightarrow> sys \<Rightarrow> unit result \<times> sys" where
  "writeFile r p c s =
     (case r of
        WriteOk \<Rightarrow> (Return (), emit (WriteFile p c) (s\<lparr>files := (files s)(p \<mapsto> c)\<rparr>))
      | WriteThrows m left \<Rightarrow>
          (Throw m, if left then s\<lparr>files := (files s)(p \<mapsto> [])\<rparr> else s))"

text \<open>The if-chain of lines 37 to 44 that picks the interpreter.\<close>

definition resolve_cmd :: "string \<Rightarrow> string \<Rightarrow> string list result" where
  "resolve_cmd lang p =
     (if lang = ''python'' then Return [''python3'', p]
      else if lang = ''javascript'' \<or> lang = ''typescript'' then Return [''bun'', p]
      else Throw (''Unsupported language: '' @ lang))"

definition spawn :: "string option \<Rightarrow> string list \<Rightarrow> sys \<Rightarrow> unit result \<times> sys" where
  "spawn fault cmd s =
     (case fault of
        Some m \<Rightarrow> (Throw m, s)
      | None \<Rightarrow> (Return (), emit (Spawn cmd) s))"

text \<open>
  \<open>Promise.race\<close> of \<open>proc.exited\<close> against the timer of \<open>EXECUTION_TIMEOUT_MS\<close>: the
  process wins when it exits before the timer fires and the race gives its exit code;
  otherwise the abort handler kills the process and rejects. An exit at exactly
  5000 ms is given to the timer here; the event loop decides that case, and no
  theorem below speaks about it.
\<close>

definition race :: "(nat \<times> int) option \<Rightarrow> string list \<Rightarrow> sys \<Rightarrow> int result \<times> sys" where
  "race ex cmd s =
     (case ex of
        None \<Rightarrow> (Throw ''Execution Timed Out'', emit (Kill cmd) s)
      | Some (ms, exit_code) \<Rightarrow>
          (if ms < EXECUTION_TIMEOUT_MS then (Return exit_code, s)
           else (Throw ''Execution Timed Out'', emit (Kill cmd) s)))"

text \<open>\<open>stderr || null\<close>: the empty string is falsy.\<close>

definition or_null :: "string \<Rightarrow> string option" where
  "or_null x = (if x = [] then None else Some x)"

text \<open>The body of the \<open>try\<close> block, lines 35 to 76.\<close>

definition try_body :: "worker_env \<Rightarrow> ExecutionJob \<Rightarrow> int \<Rightarrow> string \<Rightarrow> sys \<Rightarrow> unit result \<times> sys" where
  "try_body e job startTime p s =
     (case writeFile (write_res e) p (code job) s of
        (Throw m, s1) \<Rightarrow> (Throw m, s1)
      | (Pending, s1) \<Rightarrow> (Pending, s1)
      | (Return _, s1) \<Rightarrow>
     (case resolve_cmd (language job) p of
        Throw m \<Rightarrow> (Throw m, s1)
      | Pending \<Rightarrow> (Pending, s1)
      | Return cmd \<Rightarrow>
     (case spawn (spawn_fault e) cmd s1 of
        (Throw m, s2) \<Rightarrow> (Throw m, s2)
      | (Pending, s2) \<Rightarrow> (Pending, s2)
      | (Return _, s2) \<Rightarrow>
     (case race (exit_at e) cmd s2 of
        (Throw m, s3) \<Rightarrow> (Throw m, s3)
      | (Pending, s3) \<Rightarrow> (Pending, s3)
      | (Return exited, s3) \<Rightarrow>
     (case stdout_text e of
        Throw m \<Rightarrow> (Throw m, s3)
      | Pending \<Rightarrow> (Pending, s3)
      | Return out \<Rightarrow>
     (case stderr_text e of
        Throw m \<Rightarrow> (Throw m, s3)
      | Pending \<Rightarrow> (Pending, s3)
      | Return err \<Rightarrow>
          (let duration = now_done e - startTime;
               s4 = emit (LogFinished (executionId job) duration) s3
           in (case updateExecutionStatus (completed_db e) (executionId job)
                       COMPLETED (Some out) (or_null err) (Some duration) s4 of
                 (Throw m, s5) \<Rightarrow> (Throw m, s5)
               | (Pending, s5) \<Rightarrow> (Pending, s5)
               | (Return _, s5) \<Rightarrow> (Return (), s5)))))))))"

text \<open>The body of the \<open>catch\<close> block, lines 79 to 95.\<close>

definition catch_body :: "worker_env \<Rightarrow> ExecutionJob \<Rightarrow> int \<Rightarrow> string \<Rightarrow> sys \<Rightarrow> unit result \<times> sys" where
  "catch_body e job startTime message s =
     (let s1 = emit (LogFailed (executionId job) message) s;
          duration = now_caught e - startTime;
          st = (if message = ''Execution Timed Out'' then TIMEOUT else FAILED);
          errorMsg = message
      in (case updateExecutionStatus (caught_db e) (executionId job)
                  st None (Some errorMsg) (Some duration) s1 of
            (Throw m, s2) \<Rightarrow> (Throw m, s2)
          | (Pending, s2) \<Rightarrow> (Pending, s2)
          | (Return _, s2) \<Rightarrow> (Return (), s2)))"

text \<open>
  The body of the \<open>finally\<close> block, lines 97 to 101: \<open>existsSync\<close> then \<open>unlink\<close>, with
  an exception of the removal caught and logged.
\<close>

definition finally_body :: "worker_env \<Rightarrow> string \<Rightarrow> sys \<Rightarrow> sys" where
  "finally_body e p s =
     (case files s p of
        None \<Rightarrow> s
      | Some _ \<Rightarrow>
          (case unlink_fault e of
             None \<Rightarrow> emit (Unlink p) (s\<lparr>files := (files s)(p := None)\<rparr>)
           | Some m \<Rightarrow> emit (LogCleanupFailed p) s))"

text \<open>
  The processor function given to the \<open>Worker\<close>, lines 23 to 103. \<open>Throw m\<close> is an
  exception that leaves the handler (the queue then counts the attempt as failed).
  A \<open>try\<close> with \<open>catch\<close> and \<open>finally\<close> runs the \<open>finally\<close> block also when the
  \<open>catch\<close> block throws, and then rethrows. \<open>Pending\<close> is a handler that never
  returns: suspended at an await that does not settle, it runs neither block.
\<close>

definition executionWorker :: "worker_env \<Rightarrow> ExecutionJob \<Rightarrow> sys \<Rightarrow> unit result \<times> sys" where
  "executionWorker e job s =
     (let startTime = now_start e;
          s0 = emit (LogProcessing (executionId job) (language job)) s
      in (case updateExecutionStatus (running_db e) (executionId job) RUNNING None None None s0 of
            (Throw m, s1) \<Rightarrow> (Throw m, s1)
          | (Pending, s1) \<Rightarrow> (Pending, s1)
          | (Return _, s1) \<Rightarrow>
              (let p = filePath (cwd e) job;
                   tried = try_body e job startTime p s1;
                   caught = (case fst tried of
                               Return u \<Rightarrow> (Return u, snd tried)
                             | Pending \<Rightarrow> (Pending, snd tried)
                             | Throw m \<Rightarrow> catch_body e job startTime m (snd tried))
               in (case fst caught of
                     Pending \<Rightarrow> (Pending, snd caught)
                   | Throw m \<Rightarrow> (Throw m, finally_body e p (snd caught))
                   | Return u \<Rightarrow> (Return u, finally_body e p (snd caught))))))"

section \<open>The poll endpoint (index.ts)\<close>

text \<open>
  The handler of \<open>GET /executions/:id\<close>, lines 66 to 87. A response is the status code
  (\<open>set.status\<close>, 200 unless the handler sets it) and the fields of the returned object
  in the order they are written. An exception of the store leaves the handler, for the
  framework's \<open>onError\<close>.
\<close>

datatype json = JString string | JNumber int | JNull

record http_response =
  http_status :: nat
  body :: "(string \<times> json) list"

definition status_name :: "ExecutionStatus \<Rightarrow> string" where
  "status_name st =
     (case st of
        QUEUED \<Rightarrow> ''QUEUED''
      | RUNNING \<Rightarrow> ''RUNNING''
      | COMPLETED \<Rightarrow> ''COMPLETED''
      | FAILED \<Rightarrow> ''FAILED''
      | TIMEOUT \<Rightarrow> ''TIMEOUT'')"

text \<open>\<open>x || ""\<close> on a nullable string.\<close>

definition or_empty :: "string option \<Rightarrow> string" where
  "or_empty x = (case x of None \<Rightarrow> [] | Some v \<Rightarrow> (if v = [] then [] else v))"

definition json_of_time :: "int option \<Rightarrow> json" where
  "json_of_time t = (case t of None \<Rightarrow> JNull | Some n \<Rightarrow> JNumber n)"

definition get_execution_route :: "string option \<Rightarrow> string \<Rightarrow> sys \<Rightarrow> http_response result" where
  "get_execution_route fault i s =
     (case getExecution fault i s of
        Throw m \<Rightarrow> Throw m
      | Pending \<Rightarrow> Pending
      | Return None \<Rightarrow>
          Return \<lparr>http_status = 404, body = [(''error'', JString ''Execution not found'')]\<rparr>
      | Return (Some execution) \<Rightarrow>
          (if status execution = COMPLETED \<or> status execution = FAILED
                \<or> status execution = TIMEOUT
           then Return \<lparr>http_status = 200,
                  body = [(''execution_id'', JString (exec_id execution)),
                          (''status'', JString (status_name (status execution))),
                          (''stdout'', JString (or_empty (stdout execution))),
                          (''stderr'', JString (or_empty (stderr execution))),
                          (''execution_time_ms'', json_of_time (execution_time_ms execution))]\<rparr>
           else Return \<lparr>http_status = 200,
                  body = [(''execution_id'', JString (exec_id execution)),
                          (''status'', JString (status_name (status execution)))]\<rparr>))"

section \<open>Histories\<close>

text \<open>
  The executions table is written by \<open>createExecution\<close> (from the run endpoint) and by
  the worker's handler, and by nothing else. A history is any sequence of such calls,
  each with its own outcome of the outside world; a job may be handled any number of
  times, as the queue delivers at least once.
\<close>

datatype action =
    Create db_faults string string
  | Enqueue "string option" string string string
  | Handle worker_env ExecutionJob

fun act :: "action \<Rightarrow> sys \<Rightarrow> sys" where
  "act (Create faults i sid) s = snd (createExecution faults i sid s)"
| "act (Enqueue fault i lang c) s = snd (addExecutionJob fault i lang c s)"
| "act (Handle e job) s = snd (executionWorker e job s)"

fun history :: "action list \<Rightarrow> sys \<Rightarrow> sys" where
  "history [] s = s"
| "history (a # as) s = history as (act a s)"

text \<open>The statuses that the executed \<open>UPDATE\<close> statements gave to execution \<open>i\<close>, in order.\<close>

fun status_writes :: "string \<Rightarrow> event list \<Rightarrow> ExecutionStatus list" where
  "status_writes i [] = []"
| "status_writes i (SqlUpdate j st out err t # evs) =
     (if j = i then st # status_writes i evs else status_writes i evs)"
| "status_writes i (_ # evs) = status_writes i evs"

definition terminal :: "ExecutionStatus \<Rightarrow> bool" where
  "terminal st = (st = COMPLETED \<or> st = FAILED \<or> st = TIMEOUT)"

text \<open>The output fields of a row are unset while it is queued or running.\<close>

definition pending_unset :: "Execution \<Rightarrow> bool" where
  "pending_unset ex =
     (if status ex = QUEUED \<or> status ex = RUNNING
      then stdout ex = None \<and> stderr ex = None \<and> execution_time_ms ex = None
      else True)"

text \<open>The commands of the subprocesses started, in order.\<close>

fun spawns :: "event list \<Rightarrow> string list list" where
  "spawns [] = []"
| "spawns (Spawn cmd # evs) = cmd # spawns evs"
| "spawns (_ # evs) = spawns evs"

text \<open>Every row of the executions table has its output fields unset while it is pending.\<close>

definition store_pending_unset :: "sys \<Rightarrow> bool" where
  "store_pending_unset s = (\<forall>i ex. executions s i = Some ex \<longrightarrow> pending_unset ex)"

section \<open>Concrete runs\<close>

text \<open>
  A store with one python session and one queued execution of it, and a run of the
  handler in which the world behaves: every call succeeds and the subprocess exits
  after 40 ms with code 0.
\<close>

definition session1 :: CodeSession where
  "session1 = \<lparr>cs_id = ''s1'', cs_language = ''python'',
                cs_source_code = ''print(1)'', cs_status = ACTIVE\<rparr>"

definition queued1 :: Execution where
  "queued1 = \<lparr>exec_id = ''e1'', session_id = ''s1'', status = QUEUED,
               stdout = None, stderr = None, execution_time_ms = None\<rparr>"

definition sys1 :: sys where
  "sys1 = \<lparr>sessions = [''s1'' \<mapsto> session1], executions = [''e1'' \<mapsto> queued1],
            files = Map.empty, queue = [], trace = []\<rparr>"

text \<open>The same store before the execution is created.\<close>

definition sys0 :: sys where
  "sys0 = \<lparr>sessions = [''s1'' \<mapsto> session1], executions = Map.empty,
            files = Map.empty, queue = [], trace = []\<rparr>"

definition env_ok :: worker_env where
  "env_ok = \<lparr>cwd = ''/app'', now_start = 1000, now_done = 1042, now_caught = 1050,
              running_db = (None, None), write_res = WriteOk, spawn_fault = None,
              exit_at = Some (40, 0), stdout_text = Return ''1'', stderr_text = Return [],
              completed_db = (None, None), caught_db = (None, None),
              unlink_fault = None\<rparr>"

definition job1 :: ExecutionJob where
  "job1 = \<lparr>executionId = ''e1'', language = ''python'', code = ''print(1)''\<rparr>"

text \<open>Scenario B: the unterminated string; python3 exits with code 1 and a message on stderr.\<close>

definition job_broken :: ExecutionJob where
  "job_broken = \<lparr>executionId = ''e1'', language = ''python'', code = ''print('broken''\<rparr>"

definition env_broken :: worker_env where
  "env_broken = env_ok\<lparr>exit_at := Some (40, 1), stdout_text := Return [],
                   stderr_text := Return ''SyntaxError: unterminated string literal''\<rparr>"

text \<open>Scenario D: a language without an interpreter.\<close>

definition job_ruby :: ExecutionJob where
  "job_ruby = \<lparr>executionId = ''e1'', language = ''ruby'', code = ''puts 1''\<rparr>"

text \<open>Scenario C: the subprocess is still running when the timer fires.\<close>

definition env_sleep :: worker_env where
  "env_sleep = env_ok\<lparr>exit_at := Some (6000, 0), stdout_text := Return ''partial''\<rparr>"

text \<open>The store refuses the first statement of the handler.\<close>

definition env_store_down :: worker_env where
  "env_store_down = env_ok\<lparr>running_db := (Some ''ECONNREFUSED'', None)\<rparr>"

text \<open>The file cannot be written.\<close>

definition env_disk_full :: worker_env where
  "env_disk_full = env_ok\<lparr>write_res := WriteThrows ''ENOSPC'' False\<rparr>"

text \<open>The file cannot be written and, after that, the store refuses the status of the catch block.\<close>

definition env_disk_then_store :: worker_env where
  "env_disk_then_store = env_disk_full\<lparr>caught_db := (Some ''ECONNREFUSED'', None)\<rparr>"

text \<open>
  The subprocess finishes and COMPLETED is stored, but the read-back of the row fails;
  the catch block then cannot store its status either, so the handler throws and the
  queue (attempts = 2) delivers the job again.
\<close>

definition env_readback_lost :: worker_env where
  "env_readback_lost = env_ok\<lparr>completed_db := (None, Some ''ECONNRESET''),
                          caught_db := (Some ''ECONNRESET'', None)\<rparr>"

text \<open>
  The subprocess starts a child that inherits its two pipes and never exits, and exits
  itself after 40 ms: neither stream ever reaches its end.
\<close>

definition job_daemon :: ExecutionJob where
  "job_daemon = \<lparr>executionId = ''e1'', language = ''python'',
      code = ''import subprocess; subprocess.Popen(['sleep', 'infinity'])''\<rparr>"

definition env_pipe_held :: worker_env where
  "env_pipe_held = env_ok\<lparr>stdout_text := Pending, stderr_text := Pending\<rparr>"

text \<open>The file cannot be removed.\<close>

definition env_unlink_fails :: worker_env where
  "env_unlink_fails = env_ok\<lparr>unlink_fault := Some ''EBUSY''\<rparr>"

text \<open>
  The run endpoint creates the execution and adds its job; the handler then fails to
  write the file and to store the status of the catch block.
\<close>

definition history_stuck :: "action list" where
  "history_stuck = [Create (None, None) ''e1'' ''s1'',
                    Enqueue None ''e1'' ''python'' ''print(1)'',
                    Handle env_disk_then_store job1]"

text \<open>A row as the worker leaves it after a run that completed.\<close>

definition completed1 :: Execution where
  "completed1 = \<lparr>exec_id = ''e1'', session_id = ''s1'', status = COMPLETED,
                  stdout = Some ''1'', stderr = None, execution_time_ms = Some 42\<rparr>"

section \<open>What each step leaves unchanged\<close>

lemmas example_defs = sys1_def env_ok_def job1_def job_broken_def env_broken_def job_ruby_def
  env_sleep_def env_store_down_def env_disk_then_store_def env_readback_lost_def
  env_unlink_fails_def queued1_def session1_def env_disk_full_def sys0_def history_stuck_def
  completed1_def job_daemon_def env_pipe_held_def

lemmas worker_defs = executionWorker_def try_body_def catch_body_def finally_body_def
  updateExecutionStatus_def sql_update_execution_def getExecution_def writeFile_def
  resolve_cmd_def spawn_def race_def emit_def filePath_def TEMP_DIR_def fileName_def
  join_def or_null_def EXECUTION_TIMEOUT_MS_def Let_def

lemma emit_fields [simp]:
  "executions (emit ev s) = executions s" "files (emit ev s) = files s"
  "sessions (emit ev s) = sessions s" "queue (emit ev s) = queue s"
  "trace (emit ev s) = trace s @ [ev]"
  by (simp_all add: emit_def)

lemma sql_update_fields [simp]:
  "files (sql_update_execution i st out err t s) = files s"
  "sessions (sql_update_execution i st out err t s) = sessions s"
  "queue (sql_update_execution i st out err t s) = queue s"
  "trace (sql_update_execution i st out err t s) = trace s @ [SqlUpdate i st out err t]"
  by (simp_all add: sql_update_execution_def split: option.splits)

lemma sql_update_executions:
  "executions (sql_update_execution i st out err t s) =
     (case executions s i of
        None \<Rightarrow> executions s
      | Some ex \<Rightarrow> (executions s)(i \<mapsto>
          ex\<lparr>status := st, stdout := out, stderr := err, execution_time_ms := t\<rparr>))"
  by (simp add: sql_update_execution_def split: option.splits)

lemma update_snd:
  "snd (updateExecutionStatus faults i st out err t s) =
     (case fst faults of Some m \<Rightarrow> s | None \<Rightarrow> sql_update_execution i st out err t s)"
  by (simp add: updateExecutionStatus_def Let_def split: option.splits)

lemma update_fst:
  "fst (updateExecutionStatus faults i st out err t s) =
     (case fst faults of
        Some m \<Rightarrow> Throw m
      | None \<Rightarrow> (case snd faults of
                   Some m \<Rightarrow> Throw m
                 | None \<Rightarrow> Return (executions (sql_update_execution i st out err t s) i)))"
  by (simp add: updateExecutionStatus_def getExecution_def Let_def split: option.splits)

lemma writeFile_executions [simp]: "executions (snd (writeFile r p c s)) = executions s"
  by (simp add: writeFile_def split: write_outcome.splits)

lemma spawn_executions [simp]: "executions (snd (spawn f cmd s)) = executions s"
  by (simp add: spawn_def split: option.splits)

lemma race_executions [simp]: "executions (snd (race x cmd s)) = executions s"
  by (simp add: race_def split: option.splits prod.splits)

lemma finally_executions [simp]: "executions (finally_body e p s) = executions s"
  by (simp add: finally_body_def split: option.splits)

subsection \<open>Rows of the executions table\<close>



text \<open>No call of the store or of the file system stays pending, and neither does the race.\<close>

lemma never_pending [simp]:
  "fst (updateExecutionStatus faults i st out err t s) \<noteq> Pending"
  "fst (writeFile r p c s) \<noteq> Pending"
  "resolve_cmd lang p \<noteq> Pending"
  "fst (spawn f cmd s) \<noteq> Pending"
  "fst (race x cmd s) \<noteq> Pending"
  by (simp_all add: update_fst writeFile_def resolve_cmd_def spawn_def race_def
        split: option.splits write_outcome.splits prod.splits)

lemma catch_body_never_pending [simp]: "fst (catch_body e job st m s) \<noteq> Pending"
  by (simp add: catch_body_def Let_def case_prod_beta split: result.splits)



text \<open>A try block that stays pending waits for a stream and has stored nothing.\<close>

lemma try_body_Pending:
  assumes "fst (try_body e job st p s) = Pending"
  shows "(stdout_text e = Pending \<or> stderr_text e = Pending) \<and>
         executions (snd (try_body e job st p s)) = executions s"
  using assms
  by (simp add: try_body_def Let_def case_prod_beta split: result.splits)


subsection \<open>The events of each step\<close>

lemma status_writes_append [simp]:
  "status_writes i (xs @ ys) = status_writes i xs @ status_writes i ys"
  by (induction i xs rule: status_writes.induct) simp_all

lemma spawns_append [simp]: "spawns (xs @ ys) = spawns xs @ spawns ys"
  by (induction xs rule: spawns.induct) simp_all

lemma writeFile_trace:
  "trace (snd (writeFile r p c s)) =
     trace s @ (case r of WriteOk \<Rightarrow> [WriteFile p c] | WriteThrows m l \<Rightarrow> [])"
  by (simp add: writeFile_def split: write_outcome.splits)

lemma spawn_trace:
  "trace (snd (spawn f cmd s)) = trace s @ (case f of None \<Rightarrow> [Spawn cmd] | Some m \<Rightarrow> [])"
  by (simp add: spawn_def split: option.splits)

lemma race_trace:
  "trace (snd (race x cmd s)) =
     trace s @ (case fst (race x cmd s) of Throw m \<Rightarrow> [Kill cmd] | Return c \<Rightarrow> [])"
  by (simp add: race_def split: option.splits prod.splits)

lemma finally_trace:
  "trace (finally_body e p s) =
     trace s @ (case files s p of
                  None \<Rightarrow> []
                | Some c \<Rightarrow> (case unlink_fault e of None \<Rightarrow> [Unlink p]
                             | Some m \<Rightarrow> [LogCleanupFailed p]))"
  by (simp add: finally_body_def split: option.splits)

lemma update_trace:
  "trace (snd (updateExecutionStatus faults i st out err t s)) =
     trace s @ (case fst faults of None \<Rightarrow> [SqlUpdate i st out err t] | Some m \<Rightarrow> [])"
  by (simp add: update_snd split: option.splits)

lemma finally_writes [simp]:
  "status_writes i (trace (finally_body e p s)) = status_writes i (trace s)"
  by (simp add: finally_trace split: option.splits)

lemma finally_spawns [simp]: "spawns (trace (finally_body e p s)) = spawns (trace s)"
  by (simp add: finally_trace split: option.splits)

lemmas trace_simps = writeFile_trace spawn_trace race_trace update_trace

lemma try_body_writes:
  assumes "completed_db e = (None, None)"
  shows "status_writes (executionId job) (trace (snd (try_body e job st p s))) =
           status_writes (executionId job) (trace s) @
             (case fst (try_body e job st p s) of
                Return u \<Rightarrow> [COMPLETED]
              | Throw m \<Rightarrow> []
              | Pending \<Rightarrow> [])"
  using assms
  by (simp add: try_body_def Let_def case_prod_beta trace_simps update_fst
           split: result.splits option.splits write_outcome.splits)

lemma catch_body_writes:
  assumes "caught_db e = (None, None)"
  shows "status_writes (executionId job) (trace (snd (catch_body e job st m s))) =
           status_writes (executionId job) (trace s) @
             [if m = ''Execution Timed Out'' then TIMEOUT else FAILED]"
  using assms
  by (simp add: catch_body_def Let_def case_prod_beta trace_simps
           split: result.splits)

subsection \<open>The invariant of pending rows\<close>

lemma sql_update_inv:
  assumes "store_pending_unset s"
    and "st = QUEUED \<or> st = RUNNING \<longrightarrow> out = None \<and> err = None \<and> t = None"
  shows "store_pending_unset (sql_update_execution i st out err t s)"
  using assms
  by (auto simp: store_pending_unset_def sql_update_executions pending_unset_def
           split: option.splits if_splits)

lemma update_inv:
  assumes "store_pending_unset s"
    and "st = QUEUED \<or> st = RUNNING \<longrightarrow> out = None \<and> err = None \<and> t = None"
  shows "store_pending_unset (snd (updateExecutionStatus faults i st out err t s))"
  using assms by (auto simp: update_snd intro: sql_update_inv split: option.splits)

lemma inv_emit [simp]: "store_pending_unset (emit ev s) = store_pending_unset s"
  by (simp add: store_pending_unset_def)

lemma inv_writeFile [simp]: "store_pending_unset (snd (writeFile r p c s)) = store_pending_unset s"
  by (simp add: store_pending_unset_def)

lemma inv_spawn [simp]: "store_pending_unset (snd (spawn f cmd s)) = store_pending_unset s"
  by (simp add: store_pending_unset_def)

lemma inv_race [simp]: "store_pending_unset (snd (race x cmd s)) = store_pending_unset s"
  by (simp add: store_pending_unset_def)

lemma inv_finally [simp]: "store_pending_unset (finally_body e p s) = store_pending_unset s"
  by (simp add: store_pending_unset_def)

lemma try_body_inv:
  "store_pending_unset s \<Longrightarrow> store_pending_unset (snd (try_body e job st p s))"
  by (auto simp: try_body_def Let_def case_prod_beta intro!: update_inv split: result.splits)

lemma catch_body_inv:
  "store_pending_unset s \<Longrightarrow> store_pending_unset (snd (catch_body e job st m s))"
  by (auto simp: catch_body_def Let_def case_prod_beta intro!: update_inv split: result.splits)

lemma executionWorker_inv:
  "store_pending_unset s \<Longrightarrow> store_pending_unset (snd (executionWorker e job s))"
  by (auto simp: executionWorker_def Let_def case_prod_beta
           intro!: update_inv try_body_inv catch_body_inv split: result.splits)

lemma createExecution_inv:
  "store_pending_unset s \<Longrightarrow> store_pending_unset (snd (createExecution f i sid s))"
  by (auto simp: createExecution_def Let_def store_pending_unset_def pending_unset_def
           split: option.splits)

lemma addExecutionJob_inv:
  "store_pending_unset s \<Longrightarrow> store_pending_unset (snd (addExecutionJob f i l c s))"
  by (simp add: addExecutionJob_def store_pending_unset_def split: option.splits)

lemma act_inv: "store_pending_unset s \<Longrightarrow> store_pending_unset (act a s)"
  by (cases a) (simp_all add: executionWorker_inv createExecution_inv addExecutionJob_inv)

lemma history_inv: "store_pending_unset s \<Longrightarrow> store_pending_unset (history as s)"
  by (induction as arbitrary: s) (simp_all add: act_inv)

subsection \<open>Files, subprocesses and the cleanup\<close>

lemma update_files [simp]: "files (snd (updateExecutionStatus faults i st out err t s)) = files s"
  by (simp add: update_snd split: option.splits)

lemma update_spawns [simp]:
  "spawns (trace (snd (updateExecutionStatus faults i st out err t s))) = spawns (trace s)"
  by (simp add: update_trace split: option.splits)

lemma writeFile_spawns [simp]: "spawns (trace (snd (writeFile r p c s))) = spawns (trace s)"
  by (simp add: writeFile_trace split: write_outcome.splits)

lemma catch_body_spawns [simp]:
  "spawns (trace (snd (catch_body e job st m s))) = spawns (trace s)"
  by (simp add: catch_body_def Let_def case_prod_beta split: result.splits)

lemma try_body_unsupported:
  assumes "resolve_cmd (language job) p = Throw m"
  shows "spawns (trace (snd (try_body e job st p s))) = spawns (trace s)"
  using assms by (simp add: try_body_def case_prod_beta split: result.splits)

lemma finally_removes: "unlink_fault e = None \<Longrightarrow> files (finally_body e p s) p = None"
  by (simp add: finally_body_def split: option.splits)

lemma try_body_unlink: "try_body (e\<lparr>unlink_fault := u\<rparr>) job st p s = try_body e job st p s"
  by (simp add: try_body_def Let_def case_prod_beta cong: result.case_cong)

lemma catch_body_unlink: "catch_body (e\<lparr>unlink_fault := u\<rparr>) job st m s = catch_body e job st m s"
  by (simp add: catch_body_def Let_def case_prod_beta cong: result.case_cong)

section \<open>The claims\<close>

subsection \<open>C1: exceptions at the job boundary\<close>




subsection \<open>C2: a language without an interpreter\<close>

text \<open>
  C2, as stated, fails: the source file is written before the interpreter is chosen
  (line 35 before lines 37 to 44), so the job of language \<open>ruby\<close> does create the
  temporary file \<open>e1.js\<close>; the \<open>finally\<close> block removes it again.
\<close>

theorem C2_unsupported_language_writes_the_file:
  "trace (snd (executionWorker env_ok job_ruby sys1)) =
     [LogProcessing ''e1'' ''ruby'',
      SqlUpdate ''e1'' RUNNING None None None,
      WriteFile ''/app/temp_execution/e1.js'' ''puts 1'',
      LogFailed ''e1'' ''Unsupported language: ruby'',
      SqlUpdate ''e1'' FAILED None (Some ''Unsupported language: ruby'') (Some 50),
      Unlink ''/app/temp_execution/e1.js'']"
  by (simp add: worker_defs example_defs)

text \<open>
  C2, amended: for a language tag other than python, javascript and typescript no
  subprocess is started, whatever else happens; and when the store accepts both
  statements and the file is written, the handler writes the temporary file
  \<open>id.js\<close>, stores FAILED with no stdout and the message
  \<open>Unsupported language: tag\<close> as stderr, returns normally, and removes the file
  in the \<open>finally\<close> block (or logs that it could not).
\<close>

theorem C2_unsupported_language_is_FAILED_without_spawn:
  assumes "language job \<noteq> ''python''" "language job \<noteq> ''javascript''"
    "language job \<noteq> ''typescript''"
  shows "spawns (trace (snd (executionWorker e job s))) = spawns (trace s) \<and>
         (running_db e = (None, None) \<and> write_res e = WriteOk \<and> caught_db e = (None, None) \<and>
          executions s (executionId job) = Some ex \<longrightarrow>
            fst (executionWorker e job s) = Return () \<and>
            executions (snd (executionWorker e job s)) (executionId job) =
              Some (ex\<lparr>status := FAILED, stdout := None,
                       stderr := Some (''Unsupported language: '' @ language job),
                       execution_time_ms := Some (now_caught e - now_start e)\<rparr>) \<and>
            trace (snd (executionWorker e job s)) = trace s @
              [LogProcessing (executionId job) (language job),
               SqlUpdate (executionId job) RUNNING None None None,
               WriteFile (join (TEMP_DIR (cwd e)) (executionId job @ ''.js'')) (code job),
               LogFailed (executionId job) (''Unsupported language: '' @ language job),
               SqlUpdate (executionId job) FAILED None
                 (Some (''Unsupported language: '' @ language job))
                 (Some (now_caught e - now_start e)),
               (if unlink_fault e = None
                then Unlink (join (TEMP_DIR (cwd e)) (executionId job @ ''.js''))
                else LogCleanupFailed (join (TEMP_DIR (cwd e)) (executionId job @ ''.js'')))])"
proof -
  have cmd: "resolve_cmd (language job) p = Throw (''Unsupported language: '' @ language job)"
    for p
    using assms by (simp add: resolve_cmd_def)
  have A: "spawns (trace (snd (executionWorker e job s))) = spawns (trace s)"
    by (simp add: executionWorker_def Let_def case_prod_beta try_body_unsupported [OF cmd]
             split: result.splits)
  have B: "fst (executionWorker e job s) = Return () \<and>
            executions (snd (executionWorker e job s)) (executionId job) =
              Some (ex\<lparr>status := FAILED, stdout := None,
                       stderr := Some (''Unsupported language: '' @ language job),
                       execution_time_ms := Some (now_caught e - now_start e)\<rparr>) \<and>
            trace (snd (executionWorker e job s)) = trace s @
              [LogProcessing (executionId job) (language job),
               SqlUpdate (executionId job) RUNNING None None None,
               WriteFile (join (TEMP_DIR (cwd e)) (executionId job @ ''.js'')) (code job),
               LogFailed (executionId job) (''Unsupported language: '' @ language job),
               SqlUpdate (executionId job) FAILED None
                 (Some (''Unsupported language: '' @ language job))
                 (Some (now_caught e - now_start e)),
               (if unlink_fault e = None
                then Unlink (join (TEMP_DIR (cwd e)) (executionId job @ ''.js''))
                else LogCleanupFailed (join (TEMP_DIR (cwd e)) (executionId job @ ''.js'')))]"
    if ok: "running_db e = (None, None)" "write_res e = WriteOk" "caught_db e = (None, None)"
      "executions s (executionId job) = Some ex"
    using ok cmd assms(1)
    by (auto simp: executionWorker_def try_body_def catch_body_def finally_body_def
          updateExecutionStatus_def sql_update_execution_def getExecution_def writeFile_def
          emit_def filePath_def fileName_def Let_def
        split: option.splits)
  from A B show ?thesis by blast
qed

theorem C2_unsupported_language_is_FAILED_without_spawn_witness:
  "language job_ruby \<noteq> ''python'' \<and> language job_ruby \<noteq> ''javascript'' \<and>
   language job_ruby \<noteq> ''typescript'' \<and>
   spawns (trace (snd (executionWorker env_ok job_ruby sys1))) = [] \<and>
   fst (executionWorker env_ok job_ruby sys1) = Return () \<and>
   executions (snd (executionWorker env_ok job_ruby sys1)) ''e1'' =
     Some \<lparr>exec_id = ''e1'', session_id = ''s1'', status = FAILED, stdout = None,
           stderr = Some ''Unsupported language: ruby'', execution_time_ms = Some 50\<rparr>"
  using C2_unsupported_language_is_FAILED_without_spawn [of job_ruby env_ok sys1 queued1]
  by (simp add: example_defs)

subsection \<open>C3: the syntax error of scenario B\<close>

text \<open>
  C3: the job of scenario B. The subprocess exits with code 1 and a message on stderr;
  the exit code is not read, so the status stored is COMPLETED, where the claim and
  the repository's own end-to-end test (test 5) expect FAILED.
\<close>

theorem C3_syntax_error_is_stored_COMPLETED:
  "fst (executionWorker env_broken job_broken sys1) = Return () \<and>
   executions (snd (executionWorker env_broken job_broken sys1)) ''e1'' =
     Some \<lparr>exec_id = ''e1'', session_id = ''s1'', status = COMPLETED, stdout = Some [],
           stderr = Some ''SyntaxError: unterminated string literal'',
           execution_time_ms = Some 42\<rparr>"
  by (simp add: worker_defs example_defs)

subsection \<open>C4: exit before the timeout\<close>

text \<open>
  C4, as stated, fails: an exit of the subprocess before the timer is not enough. The
  handler goes on to read both streams to their end with no timer left, and a
  descendant of the subprocess that keeps a pipe open keeps that read pending: the
  handler never returns, COMPLETED is never stored and the row stays RUNNING.
\<close>

theorem C4_held_pipe_is_never_COMPLETED:
  "exit_at env_pipe_held = Some (40, 0) \<and> (40::nat) < 5000 \<and>
   fst (executionWorker env_pipe_held job_daemon sys1) = Pending \<and>
   executions (snd (executionWorker env_pipe_held job_daemon sys1)) ''e1'' =
     Some \<lparr>exec_id = ''e1'', session_id = ''s1'', status = RUNNING,
           stdout = None, stderr = None, execution_time_ms = None\<rparr> \<and>
   status_writes ''e1'' (trace (snd (executionWorker env_pipe_held job_daemon sys1)))
     = [RUNNING]"
  by (simp add: worker_defs example_defs)


text \<open>
  C4, amended: when the subprocess exits before the 5000 ms timer and both reads of
  its streams come to their end, and no step of the orchestration throws and the
  language has an interpreter, the status stored is COMPLETED whatever the exit code,
  with stdout as read, stderr as read (the empty string stored as null, which the
  poll endpoint turns back into the empty string) and the duration; and with reads
  that return the status left is never FAILED, whenever the subprocess exits.
\<close>

theorem C4_exit_before_timeout_is_COMPLETED:
  assumes "running_db e = (None, None)" "write_res e = WriteOk"
    "language job = ''python'' \<or> language job = ''javascript'' \<or> language job = ''typescript''"
    "spawn_fault e = None" "stdout_text e = Return out" "stderr_text e = Return err"
    "completed_db e = (None, None)"
    "executions s (executionId job) = Some ex"
  shows "(exit_at e = Some (ms, exit_code) \<and> ms < 5000 \<longrightarrow>
           fst (executionWorker e job s) = Return () \<and>
           executions (snd (executionWorker e job s)) (executionId job) =
             Some (ex\<lparr>status := COMPLETED, stdout := Some out, stderr := or_null err,
                      execution_time_ms := Some (now_done e - now_start e)\<rparr>) \<and>
           or_empty (or_null err) = err)
       \<and> (\<forall>ex'. executions (snd (executionWorker e job s)) (executionId job) = Some ex'
              \<longrightarrow> status ex' \<noteq> FAILED)"
proof -
  have "\<exists>cmd. resolve_cmd (language job) (filePath (cwd e) job) = Return cmd"
    using assms(3) by (auto simp: resolve_cmd_def)
  then obtain cmd where cmd: "resolve_cmd (language job) (filePath (cwd e) job) = Return cmd" ..
  note defs = executionWorker_def try_body_def catch_body_def finally_body_def
    updateExecutionStatus_def sql_update_execution_def getExecution_def writeFile_def
    spawn_def race_def emit_def EXECUTION_TIMEOUT_MS_def Let_def
  have A: "exit_at e = Some (ms, exit_code) \<and> ms < 5000 \<longrightarrow>
           fst (executionWorker e job s) = Return () \<and>
           executions (snd (executionWorker e job s)) (executionId job) =
             Some (ex\<lparr>status := COMPLETED, stdout := Some out, stderr := or_null err,
                      execution_time_ms := Some (now_done e - now_start e)\<rparr>)"
    using assms(1,2,4-8) cmd by (simp add: defs split: option.splits)
  have B: "or_empty (or_null err) = err"
    by (simp add: or_empty_def or_null_def)
  have C: "status ex' \<noteq> FAILED"
    if "executions (snd (executionWorker e job s)) (executionId job) = Some ex'" for ex'
  proof (cases "exit_at e")
    case None
    then show ?thesis
      using assms(1,2,4-8) cmd that
      by (auto simp: defs split: option.splits prod.splits)
  next
    case (Some a)
    obtain ms' c' where a: "a = (ms', c')" by (cases a)
    show ?thesis
    proof (cases "ms' < 5000")
      case True
      then show ?thesis
        using assms(1,2,4-8) cmd that Some a
        by (auto simp: defs split: option.splits prod.splits)
    next
      case False
      then show ?thesis
        using assms(1,2,4-8) cmd that Some a
        by (auto simp: defs split: option.splits prod.splits)
    qed
  qed
  from A B C show ?thesis by blast
qed

theorem C4_exit_before_timeout_is_COMPLETED_witness:
  "running_db env_broken = (None, None) \<and> write_res env_broken = WriteOk \<and>
   language job_broken = ''python'' \<and> spawn_fault env_broken = None \<and>
   completed_db env_broken = (None, None) \<and>
   exit_at env_broken = Some (40, 1) \<and> (40::nat) < 5000 \<and>
   fst (executionWorker env_broken job_broken sys1) = Return () \<and>
   executions (snd (executionWorker env_broken job_broken sys1)) (executionId job_broken) =
     Some (queued1\<lparr>status := COMPLETED, stdout := Some [],
             stderr := Some ''SyntaxError: unterminated string literal'',
             execution_time_ms := Some 42\<rparr>)"
  using C4_exit_before_timeout_is_COMPLETED
    [of env_broken job_broken "[]" "''SyntaxError: unterminated string literal''"
        sys1 queued1 40 1]
  by (simp add: example_defs or_null_def)

subsection \<open>C5: the timeout\<close>

text \<open>
  C5: when the subprocess was started and has not exited when the 5000 ms timer fires, and
  the store executes the statement of the catch block, the handler kills the
  subprocess and then stores TIMEOUT with stdout null and stderr the fixed text
  \<open>Execution Timed Out\<close>, whatever the subprocess had written to its streams (they
  are never read on this path).
\<close>

theorem C5_timeout_stores_the_sentinel:
  assumes "running_db e = (None, None)" "write_res e = WriteOk"
    "language job = ''python'' \<or> language job = ''javascript'' \<or> language job = ''typescript''"
    "spawn_fault e = None"
    "exit_at e = None \<or> (\<exists>ms c. exit_at e = Some (ms, c) \<and> 5000 < ms)"
    "fst (caught_db e) = None"
    "executions s (executionId job) = Some ex"
  shows "executions (snd (executionWorker e job s)) (executionId job) =
             Some (ex\<lparr>status := TIMEOUT, stdout := None, stderr := Some ''Execution Timed Out'',
                      execution_time_ms := Some (now_caught e - now_start e)\<rparr>)
       \<and> (\<exists>cmd. trace (snd (executionWorker e job s)) = trace s @
            [LogProcessing (executionId job) (language job),
             SqlUpdate (executionId job) RUNNING None None None,
             WriteFile (filePath (cwd e) job) (code job),
             Spawn cmd, Kill cmd,
             LogFailed (executionId job) ''Execution Timed Out'',
             SqlUpdate (executionId job) TIMEOUT None (Some ''Execution Timed Out'')
               (Some (now_caught e - now_start e)),
             (if unlink_fault e = None then Unlink (filePath (cwd e) job)
              else LogCleanupFailed (filePath (cwd e) job))])"
proof -
  have "\<exists>cmd. resolve_cmd (language job) (filePath (cwd e) job) = Return cmd"
    using assms(3) by (auto simp: resolve_cmd_def)
  then obtain cmd where cmd: "resolve_cmd (language job) (filePath (cwd e) job) = Return cmd" ..
  have r: "race (exit_at e) cmd s' = (Throw ''Execution Timed Out'', emit (Kill cmd) s')" for s'
    using assms(5) by (auto simp: race_def EXECUTION_TIMEOUT_MS_def)
  show ?thesis
    using assms(1,2,4,6,7) cmd r
    by (auto simp: executionWorker_def try_body_def catch_body_def finally_body_def
          updateExecutionStatus_def sql_update_execution_def getExecution_def writeFile_def
          spawn_def emit_def Let_def
        split: option.splits prod.splits)
qed

theorem C5_timeout_stores_the_sentinel_witness:
  "running_db env_sleep = (None, None) \<and> write_res env_sleep = WriteOk \<and>
   language job1 = ''python'' \<and> spawn_fault env_sleep = None \<and>
   exit_at env_sleep = Some (6000, 0) \<and> (5000::nat) < 6000 \<and>
   stdout_text env_sleep = Return ''partial'' \<and>
   executions (snd (executionWorker env_sleep job1 sys1)) (executionId job1) =
     Some (queued1\<lparr>status := TIMEOUT, stdout := None, stderr := Some ''Execution Timed Out'',
             execution_time_ms := Some 50\<rparr>)"
  using C5_timeout_stores_the_sentinel [of env_sleep job1 sys1 queued1]
  by (simp add: example_defs)

subsection \<open>C6: the order of the statuses\<close>

text \<open>
  C6, as stated, fails: \<open>updateExecutionStatus\<close> has no condition on the current
  status. In the first run below COMPLETED is stored but its read-back fails and the
  catch block cannot store either, so the handler throws with the row COMPLETED; the
  queue delivers the job again, and the second run, in which the subprocess is too
  slow, writes RUNNING and then TIMEOUT over it.
\<close>

theorem C6_redelivery_overwrites_a_terminal_status:
  "fst (executionWorker env_readback_lost job1 sys1) = Throw ''ECONNRESET'' \<and>
   map_option status (executions (snd (executionWorker env_readback_lost job1 sys1)) ''e1'')
     = Some COMPLETED \<and>
   map_option status
     (executions (snd (executionWorker env_sleep job1
        (snd (executionWorker env_readback_lost job1 sys1)))) ''e1'') = Some TIMEOUT \<and>
   status_writes ''e1''
     (trace (snd (executionWorker env_sleep job1
        (snd (executionWorker env_readback_lost job1 sys1)))))
     = [RUNNING, COMPLETED, RUNNING, TIMEOUT]"
  by (simp add: worker_defs example_defs)

text \<open>
  C6, amended: in one run of the handler in which the store executes every call,
  either the handler returns, and the statuses it has written for the execution are
  RUNNING and then exactly one terminal status; or it stays suspended at a read of a
  stream that never settles, and has written RUNNING only. It returns whenever both
  reads settle. (Nothing orders the writes of two runs for the same id.)
\<close>

theorem C6_one_run_writes_RUNNING_then_one_terminal:
  assumes "running_db e = (None, None)" "completed_db e = (None, None)"
    "caught_db e = (None, None)"
  shows "((fst (executionWorker e job s) = Return () \<and>
           (\<exists>t. terminal t \<and>
              status_writes (executionId job) (trace (snd (executionWorker e job s))) =
                status_writes (executionId job) (trace s) @ [RUNNING, t]))
          \<or> (fst (executionWorker e job s) = Pending \<and>
              (stdout_text e = Pending \<or> stderr_text e = Pending) \<and>
              status_writes (executionId job) (trace (snd (executionWorker e job s))) =
                status_writes (executionId job) (trace s) @ [RUNNING]))
       \<and> (stdout_text e \<noteq> Pending \<and> stderr_text e \<noteq> Pending \<longrightarrow>
            fst (executionWorker e job s) = Return ())"
proof -
  define tried where "tried = try_body e job (now_start e) (filePath (cwd e) job)
         (snd (updateExecutionStatus (running_db e) (executionId job) RUNNING None None None
            (emit (LogProcessing (executionId job) (language job)) s)))"
  have A: "(fst (executionWorker e job s) = Return () \<and>
           (\<exists>t. terminal t \<and>
              status_writes (executionId job) (trace (snd (executionWorker e job s))) =
                status_writes (executionId job) (trace s) @ [RUNNING, t]))
          \<or> (fst (executionWorker e job s) = Pending \<and>
              (stdout_text e = Pending \<or> stderr_text e = Pending) \<and>
              status_writes (executionId job) (trace (snd (executionWorker e job s))) =
                status_writes (executionId job) (trace s) @ [RUNNING])"
  proof (cases "fst tried")
    case (Return u)
    then show ?thesis
      using assms(1) try_body_writes [OF assms(2)]
      by (simp add: executionWorker_def Let_def case_prod_beta trace_simps update_fst
            terminal_def tried_def)
  next
    case (Throw m)
    then show ?thesis
      using assms(1,3) try_body_writes [OF assms(2)] catch_body_writes [OF assms(3)]
      by (simp add: executionWorker_def Let_def case_prod_beta trace_simps update_fst
            terminal_def tried_def catch_body_def
          split: result.splits)
  next
    case Pending
    from try_body_Pending [OF Pending [unfolded tried_def]] Pending
    show ?thesis
      using assms(1) try_body_writes [OF assms(2)]
      by (simp add: executionWorker_def Let_def case_prod_beta trace_simps update_fst
            tried_def)
  qed
  from A show ?thesis by blast
qed

theorem C6_one_run_writes_RUNNING_then_one_terminal_witness:
  "running_db env_sleep = (None, None) \<and> completed_db env_sleep = (None, None) \<and>
   caught_db env_sleep = (None, None) \<and>
   stdout_text env_sleep = Return ''partial'' \<and> stderr_text env_sleep = Return [] \<and>
   fst (executionWorker env_sleep job1 sys1) = Return () \<and>
   status_writes (executionId job1) (trace (snd (executionWorker env_sleep job1 sys1))) =
     [RUNNING, TIMEOUT] \<and>
   running_db env_pipe_held = (None, None) \<and> stdout_text env_pipe_held = Pending \<and>
   fst (executionWorker env_pipe_held job_daemon sys1) = Pending \<and>
   status_writes (executionId job_daemon)
     (trace (snd (executionWorker env_pipe_held job_daemon sys1))) = [RUNNING]"
  using C6_one_run_writes_RUNNING_then_one_terminal [of env_sleep job1 sys1]
    C6_one_run_writes_RUNNING_then_one_terminal [of env_pipe_held job_daemon sys1]
  by (simp add: worker_defs example_defs)

subsection \<open>C7: the temporary file\<close>

text \<open>
  C7: after the handler has finished (returned or thrown; a handler suspended for good
  at a read of a stream never finishes), and when the removal does not fail, the
  temporary file of the job does not exist, on every path: if it did not exist before
  (the only finishing path that skips the \<open>finally\<close> block is a failed RUNNING
  statement, before the file is written), and in any case once the RUNNING statement
  went through. Whether the removal fails changes neither how the handler ends
  (returning, or throwing what the store threw) nor any row of the executions table:
  a failed removal is only logged.
\<close>

theorem C7_temp_file_removed_on_every_path:
  "(unlink_fault e = None \<and> files s (filePath (cwd e) job) = None \<and>
    fst (executionWorker e job s) \<noteq> Pending \<longrightarrow>
      files (snd (executionWorker e job s)) (filePath (cwd e) job) = None) \<and>
   (unlink_fault e = None \<and> running_db e = (None, None) \<and>
    fst (executionWorker e job s) \<noteq> Pending \<longrightarrow>
      files (snd (executionWorker e job s)) (filePath (cwd e) job) = None) \<and>
   fst (executionWorker (e\<lparr>unlink_fault := u\<rparr>) job s) = fst (executionWorker e job s) \<and>
   executions (snd (executionWorker (e\<lparr>unlink_fault := u\<rparr>) job s)) =
     executions (snd (executionWorker e job s))"
proof -
  have A: "files (snd (executionWorker e job s)) (filePath (cwd e) job) = None"
    if "unlink_fault e = None" "files s (filePath (cwd e) job) = None"
      "fst (executionWorker e job s) \<noteq> Pending"
    using that
    by (simp add: executionWorker_def Let_def case_prod_beta finally_removes
             split: result.splits)
  have B: "files (snd (executionWorker e job s)) (filePath (cwd e) job) = None"
    if "unlink_fault e = None" "running_db e = (None, None)"
      "fst (executionWorker e job s) \<noteq> Pending"
    using that
    by (simp add: executionWorker_def Let_def case_prod_beta finally_removes update_fst
             split: result.splits)
  have C: "fst (executionWorker (e\<lparr>unlink_fault := u\<rparr>) job s) = fst (executionWorker e job s)"
    by (simp add: executionWorker_def Let_def case_prod_beta try_body_unlink catch_body_unlink
             split: result.splits)
  have D: "executions (snd (executionWorker (e\<lparr>unlink_fault := u\<rparr>) job s)) =
           executions (snd (executionWorker e job s))"
    by (simp add: executionWorker_def Let_def case_prod_beta try_body_unlink catch_body_unlink
             split: result.splits)
  from A B C D show ?thesis by blast
qed

theorem C7_temp_file_removed_on_every_path_witness:
  "unlink_fault env_ok = None \<and> files sys1 (filePath (cwd env_ok) job1) = None \<and>
   running_db env_ok = (None, None) \<and>
   fst (executionWorker env_ok job1 sys1) = Return () \<and>
   filePath (cwd env_ok) job1 = ''/app/temp_execution/e1.py'' \<and>
   files (snd (executionWorker env_ok job1 sys1)) ''/app/temp_execution/e1.py'' = None \<and>
   fst (executionWorker env_unlink_fails job1 sys1) = fst (executionWorker env_ok job1 sys1) \<and>
   executions (snd (executionWorker env_unlink_fails job1 sys1)) =
     executions (snd (executionWorker env_ok job1 sys1))"
proof -
  have fin: "fst (executionWorker env_ok job1 sys1) = Return ()"
    by (simp add: worker_defs example_defs)
  show ?thesis
    using C7_temp_file_removed_on_every_path [of env_ok sys1 job1 "Some ''EBUSY''"] fin
    by (simp add: example_defs filePath_def TEMP_DIR_def fileName_def join_def)
qed

subsection \<open>C8: output fields of pending rows\<close>

text \<open>
  C8: starting from an empty executions table, after any history of
  \<open>createExecution\<close> calls, enqueues and runs of the handler (with any outcomes of
  the outside world, any jobs, repeated or not), every row whose status is QUEUED or
  RUNNING has stdout, stderr and execution_time_ms unset.
\<close>

theorem C8_output_fields_unset_while_pending:
  "executions s = Map.empty \<Longrightarrow> executions (history as s) i = Some ex \<Longrightarrow> pending_unset ex"
proof -
  assume e: "executions s = Map.empty" and r: "executions (history as s) i = Some ex"
  from e have "store_pending_unset s" by (simp add: store_pending_unset_def)
  then have "store_pending_unset (history as s)" by (rule history_inv)
  with r show "pending_unset ex" by (simp add: store_pending_unset_def)
qed

theorem C8_output_fields_unset_while_pending_witness:
  "executions sys0 = Map.empty \<and>
   executions (history history_stuck sys0) ''e1'' =
     Some \<lparr>exec_id = ''e1'', session_id = ''s1'', status = RUNNING,
           stdout = None, stderr = None, execution_time_ms = None\<rparr> \<and>
   pending_unset \<lparr>exec_id = ''e1'', session_id = ''s1'', status = RUNNING,
           stdout = None, stderr = None, execution_time_ms = None\<rparr>"
proof -
  have h1: "executions sys0 = Map.empty" by (simp add: sys0_def)
  have h2: "executions (history history_stuck sys0) ''e1'' =
     Some \<lparr>exec_id = ''e1'', session_id = ''s1'', status = RUNNING,
           stdout = None, stderr = None, execution_time_ms = None\<rparr>"
    by (simp add: worker_defs example_defs createExecution_def addExecutionJob_def)
  from C8_output_fields_unset_while_pending [OF h1 h2] h1 h2 show ?thesis by blast
qed

subsection \<open>C9: the producer\<close>

text \<open>
  C9: a call of \<open>addExecutionJob\<close> that the broker accepts appends exactly one job
  to the queue, named \<open>execute\<close>, with the payload given and the options attempts 2,
  exponential backoff from 1000 ms, removeOnComplete true and removeOnFail false;
  it leaves both tables, the files and the events as they were, and what it appends
  does not depend on the executions table.
\<close>

theorem C9_enqueue_appends_one_job:
  "fst (addExecutionJob None i lang c s) = Return () \<and>
   queue (snd (addExecutionJob None i lang c s)) = queue s @
     [\<lparr>job_name = ''execute'',
       job_data = \<lparr>executionId = i, language = lang, code = c\<rparr>,
       job_opts = \<lparr>attempts = 2,
                    backoff = \<lparr>backoff_type = ''exponential'', delay = 1000\<rparr>,
                    removeOnComplete = True, removeOnFail = False\<rparr>\<rparr>] \<and>
   length (queue (snd (addExecutionJob None i lang c s))) = Suc (length (queue s)) \<and>
   executions (snd (addExecutionJob fault i lang c s)) = executions s \<and>
   sessions (snd (addExecutionJob fault i lang c s)) = sessions s \<and>
   files (snd (addExecutionJob fault i lang c s)) = files s \<and>
   trace (snd (addExecutionJob fault i lang c s)) = trace s \<and>
   queue (snd (addExecutionJob fault i lang c (s\<lparr>executions := table\<rparr>))) =
     queue (snd (addExecutionJob fault i lang c s)) \<and>
   fst (addExecutionJob fault i lang c (s\<lparr>executions := table\<rparr>)) =
     fst (addExecutionJob fault i lang c s)"
  by (simp add: addExecutionJob_def split: option.splits)

subsection \<open>C10: the poll endpoint\<close>

text \<open>
  C10: when the store answers, \<open>GET /executions/:id\<close> gives status 404 with an
  error body when there is no such execution; for a terminal execution the id, the
  status, stdout and stderr as strings (null as the empty string) and
  execution_time_ms; for a queued or running execution the id and the status only.
\<close>

theorem C10_poll_endpoint_responses:
  "(executions s i = None \<longrightarrow>
      get_execution_route None i s =
        Return \<lparr>http_status = 404, body = [(''error'', JString ''Execution not found'')]\<rparr>) \<and>
   (executions s i = Some ex \<and> terminal (status ex) \<longrightarrow>
      get_execution_route None i s =
        Return \<lparr>http_status = 200,
          body = [(''execution_id'', JString (exec_id ex)),
                  (''status'', JString (status_name (status ex))),
                  (''stdout'', JString (case stdout ex of None \<Rightarrow> [] | Some v \<Rightarrow> v)),
                  (''stderr'', JString (case stderr ex of None \<Rightarrow> [] | Some v \<Rightarrow> v)),
                  (''execution_time_ms'',
                     case execution_time_ms ex of None \<Rightarrow> JNull | Some n \<Rightarrow> JNumber n)]\<rparr>) \<and>
   (executions s i = Some ex \<and> (status ex = QUEUED \<or> status ex = RUNNING) \<longrightarrow>
      get_execution_route None i s =
        Return \<lparr>http_status = 200,
          body = [(''execution_id'', JString (exec_id ex)),
                  (''status'', JString (status_name (status ex)))]\<rparr>)"
  by (auto simp: get_execution_route_def getExecution_def terminal_def or_empty_def
        json_of_time_def
      split: option.splits)

theorem C10_poll_endpoint_responses_witness:
  "executions sys1 ''nope'' = None \<and>
   get_execution_route None ''nope'' sys1 =
     Return \<lparr>http_status = 404, body = [(''error'', JString ''Execution not found'')]\<rparr> \<and>
   executions (sys1\<lparr>executions := [''e1'' \<mapsto> completed1]\<rparr>) ''e1'' = Some completed1 \<and>
   terminal (status completed1) \<and>
   get_execution_route None ''e1'' (sys1\<lparr>executions := [''e1'' \<mapsto> completed1]\<rparr>) =
     Return \<lparr>http_status = 200,
       body = [(''execution_id'', JString ''e1''), (''status'', JString ''COMPLETED''),
               (''stdout'', JString ''1''), (''stderr'', JString []),
               (''execution_time_ms'', JNumber 42)]\<rparr> \<and>
   executions sys1 ''e1'' = Some queued1 \<and> status queued1 = QUEUED \<and>
   get_execution_route None ''e1'' sys1 =
     Return \<lparr>http_status = 200,
       body = [(''execution_id'', JString ''e1''), (''status'', JString ''QUEUED'')]\<rparr>"
  using C10_poll_endpoint_responses [of sys1 "''nope''" queued1]
    C10_poll_endpoint_responses [of "sys1\<lparr>executions := [''e1'' \<mapsto> completed1]\<rparr>" "''e1''" completed1]
    C10_poll_endpoint_responses [of sys1 "''e1''" queued1]
  by (simp add: example_defs terminal_def status_name_def)

end
